theory Spec2Isabelle
  imports Complex_Main "HOL-Library.AList" "HOL-Library.Multiset"
begin

section \<open>Vectors, floats and the numpy primitives the indexes call\<close>

text \<open>
  Record ids are UUIDs; only their identity matters, so they are natural numbers here.
  An embedding is a one-dimensional numpy array, modelled as a list of reals: the
  arithmetic is the exact one (no rounding, no overflow), except that a division by zero
  gives what numpy's float64 gives, \<open>nan\<close> or an infinity, with a warning and without
  raising. A search result carries such a float.
\<close>

type_synonym uuid = nat
type_synonym vec = "real list"

datatype py_error =
  ValueError | KeyError | StopIteration | NotFittedError | EmbeddingUnavailable

datatype pyfloat = Fin real | PInf | NInf | NaN

text \<open>\<open>a / b\<close> on two finite float64 values.\<close>

definition fdiv :: "real \<Rightarrow> real \<Rightarrow> pyfloat" where
  "fdiv a b =
     (if b \<noteq> 0 then Fin (a / b)
      else if a = 0 then NaN
      else if 0 < a then PInf else NInf)"

text \<open>\<open>a < b\<close> and \<open>a <= b\<close> on floats: every comparison with \<open>nan\<close> is false.\<close>

fun fl_lt :: "pyfloat \<Rightarrow> pyfloat \<Rightarrow> bool" where
  "fl_lt NaN _ = False"
| "fl_lt _ NaN = False"
| "fl_lt (Fin a) (Fin b) = (a < b)"
| "fl_lt _ NInf = False"
| "fl_lt NInf _ = True"
| "fl_lt PInf _ = False"
| "fl_lt _ PInf = True"


text \<open>\<open>np.linalg.norm(v)\<close> and \<open>np.dot(a, b)\<close>; the latter raises \<open>ValueError\<close> on two
  one-dimensional arrays of different lengths.\<close>

definition np_norm :: "vec \<Rightarrow> real" where
  "np_norm v = sqrt (\<Sum>x\<leftarrow>v. x * x)"

definition np_dot :: "vec \<Rightarrow> vec \<Rightarrow> py_error + real" where
  "np_dot a b =
     (if length a = length b then Inr (\<Sum>(x, y)\<leftarrow>zip a b. x * y) else Inl ValueError)"

text \<open>The cosine similarity of the specification, on reals.\<close>

definition cosine :: "vec \<Rightarrow> vec \<Rightarrow> real" where
  "cosine a b = (\<Sum>(x, y)\<leftarrow>zip a b. x * y) / (np_norm a * np_norm b)"

section \<open>Records and search results\<close>

text \<open>
  \<open>datarecord.py\<close>: of the three record classes only \<open>Chunk\<close> has an \<open>embedding\<close>
  attribute, a list of floats or \<open>None\<close>. The other fields (content, metadata, time
  stamps) never reach an index.
\<close>

datatype DataRecord =
    Chunk uuid "vec option"
  | Document uuid
  | Library uuid

fun rec_id :: "DataRecord \<Rightarrow> uuid" where
  "rec_id (Chunk i _) = i"
| "rec_id (Document i) = i"
| "rec_id (Library i) = i"

text \<open>
  The test every index makes before it takes a record:
  \<open>hasattr(item, "embedding") and isinstance(item.embedding, list)\<close> in the brute-force
  and NSW indexes, \<open>isinstance(item, Chunk) and item.embedding is not None\<close> in the IVF
  index. Both hold exactly for a chunk whose embedding is a list.
\<close>

fun embedding_of :: "DataRecord \<Rightarrow> vec option" where
  "embedding_of (Chunk _ e) = e"
| "embedding_of _ = None"

record SearchResult =
  res_id :: uuid
  confidence :: pyfloat

text \<open>The sort key \<open>lambda x: x.confidence or 0.0\<close>: a falsy confidence (\<open>0.0\<close>) is
  replaced by \<open>0.0\<close>; \<open>nan\<close> is truthy.\<close>

definition result_key :: "SearchResult \<Rightarrow> pyfloat" where
  "result_key x = (if confidence x = Fin 0 then Fin 0 else confidence x)"

text \<open>
  \<open>results.sort(key=..., reverse=True)\<close>. Python's sort is stable, also when reversed:
  results with equal keys keep their order. On keys without \<open>nan\<close> any stable sort
  returns the same list, here an insertion sort; with a \<open>nan\<close> key the order Python
  returns depends on the internals of its sort, and this model fixes one.
\<close>

fun insert_desc :: "SearchResult \<Rightarrow> SearchResult list \<Rightarrow> SearchResult list" where
  "insert_desc x [] = [x]"
| "insert_desc x (y # ys) =
     (if fl_lt (result_key x) (result_key y) then y # insert_desc x ys else x # y # ys)"

fun sort_desc :: "SearchResult list \<Rightarrow> SearchResult list" where
  "sort_desc [] = []"
| "sort_desc (x # xs) = insert_desc x (sort_desc xs)"

text \<open>The slice \<open>xs[:limit]\<close>: a negative limit drops that many results from the end.\<close>

definition py_take :: "int \<Rightarrow> 'a list \<Rightarrow> 'a list" where
  "py_take limit xs =
     (if 0 \<le> limit then take (nat limit) xs else take (length xs - nat (- limit)) xs)"

text \<open>
  The embedding provider \<open>get_embeddings_bulk([query])[0]\<close> is an external service: a
  parameter \<open>provider\<close> of every search, which returns a vector or fails.
\<close>

type_synonym embedder = "string \<Rightarrow> py_error + vec"

section \<open>BruteForceCosineSimilarityIndex\<close>

text \<open>
  The state is the dictionary \<open>self.embeddings\<close>. A Python dictionary iterates in
  insertion order and an assignment to an existing key keeps the key's place, which is
  what \<^const>\<open>AList.update\<close> does on an association list.
\<close>

type_synonym bf_index = "(uuid \<times> vec) list"

definition bf_add :: "DataRecord \<Rightarrow> bf_index \<Rightarrow> bf_index" where
  "bf_add item embs =
     (case embedding_of item of
        Some e \<Rightarrow> AList.update (rec_id item) e embs
      | None \<Rightarrow> embs)"

definition bf_rebuild :: "DataRecord list \<Rightarrow> bf_index \<Rightarrow> bf_index" where
  "bf_rebuild items embs = fold bf_add items []"


text \<open>The scan loop of \<open>search\<close>, lines 294 to 308 of \<open>collection.py\<close>.\<close>

fun bf_scan :: "vec \<Rightarrow> (uuid \<times> vec) list \<Rightarrow> py_error + SearchResult list" where
  "bf_scan query_vec [] = Inr []"
| "bf_scan query_vec ((item_id, item_vec) # rest) =
     (if np_norm item_vec = 0 then bf_scan query_vec rest
      else
        case np_dot query_vec item_vec of
          Inl e \<Rightarrow> Inl e
        | Inr dot_product \<Rightarrow>
            let norm_product = np_norm query_vec * np_norm item_vec;
                conf = (if norm_product = 0 then Fin 0 else fdiv dot_product norm_product)
            in case bf_scan query_vec rest of
                 Inl e \<Rightarrow> Inl e
               | Inr sims \<Rightarrow> Inr (\<lparr>res_id = item_id, confidence = conf\<rparr> # sims))"

definition bf_search :: "embedder \<Rightarrow> bf_index \<Rightarrow> string \<Rightarrow> int \<Rightarrow> py_error + SearchResult list" where
  "bf_search provider embs query limit =
     (if embs = [] then Inr []
      else
        case provider query of
          Inl e \<Rightarrow> Inl e
        | Inr query_vec \<Rightarrow>
            if np_norm query_vec = 0 then Inr []
            else
              case bf_scan query_vec embs of
                Inl e \<Rightarrow> Inl e
              | Inr similarities \<Rightarrow> Inr (py_take limit (sort_desc similarities)))"

text \<open>
  The same search over the arithmetic of the machine. numpy computes in float64: a norm
  or a quotient is rounded, a norm of tiny entries underflows to \<open>0.0\<close>, one of huge
  entries overflows to \<open>inf\<close>, and \<open>inf / inf\<close> is \<open>nan\<close>. What the four operations of the
  scan return is left open here: they are the fields of a parameter \<open>ops\<close>, the norm
  \<open>np.linalg.norm\<close>, the dot product \<open>np.dot\<close> of two vectors of one length, the product
  and the quotient of two floats. The test \<open>== 0\<close> is the comparison with \<open>Fin 0\<close>.
\<close>

record float_ops =
  f_norm :: "vec \<Rightarrow> pyfloat"
  f_dot :: "vec \<Rightarrow> vec \<Rightarrow> pyfloat"
  f_mul :: "pyfloat \<Rightarrow> pyfloat \<Rightarrow> pyfloat"
  f_div :: "pyfloat \<Rightarrow> pyfloat \<Rightarrow> pyfloat"

text \<open>The exact arithmetic, with which \<^const>\<open>bf_search\<close> is computed.\<close>

definition exact_ops :: float_ops where
  "exact_ops =
     \<lparr>f_norm = (\<lambda>v. Fin (np_norm v)),
      f_dot = (\<lambda>a b. Fin (\<Sum>(x, y)\<leftarrow>zip a b. x * y)),
      f_mul = (\<lambda>a b. case (a, b) of (Fin x, Fin y) \<Rightarrow> Fin (x * y) | _ \<Rightarrow> NaN),
      f_div = (\<lambda>a b. case (a, b) of (Fin x, Fin y) \<Rightarrow> fdiv x y | _ \<Rightarrow> NaN)\<rparr>"

text \<open>Lines 300 to 306: the similarity the scan computes for one stored vector.\<close>

definition similarity_fp :: "float_ops \<Rightarrow> vec \<Rightarrow> vec \<Rightarrow> pyfloat" where
  "similarity_fp ops query_vec item_vec =
     (let dot_product = f_dot ops query_vec item_vec;
          norm_product = f_mul ops (f_norm ops query_vec) (f_norm ops item_vec)
      in if norm_product = Fin 0 then Fin 0 else f_div ops dot_product norm_product)"

fun bf_scan_fp :: "float_ops \<Rightarrow> vec \<Rightarrow> (uuid \<times> vec) list \<Rightarrow> py_error + SearchResult list" where
  "bf_scan_fp ops query_vec [] = Inr []"
| "bf_scan_fp ops query_vec ((item_id, item_vec) # rest) =
     (if f_norm ops item_vec = Fin 0 then bf_scan_fp ops query_vec rest
      else if length query_vec \<noteq> length item_vec then Inl ValueError
      else
        case bf_scan_fp ops query_vec rest of
          Inl e \<Rightarrow> Inl e
        | Inr sims \<Rightarrow>
            Inr (\<lparr>res_id = item_id, confidence = similarity_fp ops query_vec item_vec\<rparr> # sims))"

definition bf_search_fp ::
  "float_ops \<Rightarrow> embedder \<Rightarrow> bf_index \<Rightarrow> string \<Rightarrow> int \<Rightarrow> py_error + SearchResult list" where
  "bf_search_fp ops provider embs query limit =
     (if embs = [] then Inr []
      else
        case provider query of
          Inl e \<Rightarrow> Inl e
        | Inr query_vec \<Rightarrow>
            if f_norm ops query_vec = Fin 0 then Inr []
            else
              case bf_scan_fp ops query_vec embs of
                Inl e \<Rightarrow> Inl e
              | Inr similarities \<Rightarrow> Inr (py_take limit (sort_desc similarities)))"



section \<open>NSWIndex\<close>

text \<open>
  \<open>self.embeddings\<close> and \<open>self.graph\<close> are dictionaries, so association lists in
  insertion order. A value of the graph is a Python set: a set here too, so that two
  states with the same out-neighbours are equal whatever order Python would iterate them
  in. Where the source iterates over such a set, the result does not depend on the order
  (\<open>remove\<close>), or the model iterates in ascending order of ids (\<open>search\<close>).
\<close>

record NSWIndex =
  nsw_embeddings :: "(uuid \<times> vec) list"
  nsw_graph :: "(uuid \<times> uuid set) list"
  n_neighbors :: int
  ef_construction :: int

definition nsw_init :: "int \<Rightarrow> int \<Rightarrow> NSWIndex" where
  "nsw_init n ef =
     \<lparr>nsw_embeddings = [], nsw_graph = [], n_neighbors = n, ef_construction = ef\<rparr>"

text \<open>The scan loop of \<open>_find_nearest_neighbors\<close>, lines 85 to 101 of \<open>nsw_index.py\<close>.\<close>

fun nn_scan :: "uuid \<Rightarrow> vec \<Rightarrow> (uuid \<times> vec) list \<Rightarrow> py_error + SearchResult list" where
  "nn_scan item_id embedding [] = Inr []"
| "nn_scan item_id embedding ((other_id, other_vec) # rest) =
     (if other_id = item_id then nn_scan item_id embedding rest
      else if np_norm other_vec = 0 then nn_scan item_id embedding rest
      else
        case np_dot embedding other_vec of
          Inl e \<Rightarrow> Inl e
        | Inr dot_product \<Rightarrow>
            let norm_product = np_norm embedding * np_norm other_vec;
                conf = (if norm_product = 0 then Fin 0 else fdiv dot_product norm_product)
            in case nn_scan item_id embedding rest of
                 Inl e \<Rightarrow> Inl e
               | Inr sims \<Rightarrow> Inr (\<lparr>res_id = other_id, confidence = conf\<rparr> # sims))"

definition find_nearest_neighbors ::
  "(uuid \<times> vec) list \<Rightarrow> uuid \<Rightarrow> vec \<Rightarrow> int \<Rightarrow> py_error + SearchResult list" where
  "find_nearest_neighbors embs item_id embedding k =
     (case nn_scan item_id embedding embs of
        Inl e \<Rightarrow> Inl e
      | Inr similarities \<Rightarrow> Inr (py_take k (sort_desc similarities)))"

text \<open>The first loop of \<open>rebuild\<close>: every record with a list for an embedding is stored.\<close>

definition collect_embeddings :: "DataRecord list \<Rightarrow> (uuid \<times> vec) list" where
  "collect_embeddings items =
     fold (\<lambda>item embs. case embedding_of item of
                          Some e \<Rightarrow> AList.update (rec_id item) e embs
                        | None \<Rightarrow> embs) items []"

text \<open>
  The second loop of \<open>rebuild\<close>, over the items still to visit. An exception of the
  neighbour search leaves the loop with the graph built so far: an operation returns the
  exception it raised, if any, and the state it left behind.
\<close>

fun build_graph ::
  "(uuid \<times> vec) list \<Rightarrow> int \<Rightarrow> (uuid \<times> vec) list \<Rightarrow> (uuid \<times> uuid set) list
     \<Rightarrow> py_error option \<times> (uuid \<times> uuid set) list" where
  "build_graph embs k [] g = (None, g)"
| "build_graph embs k ((item_id, embedding) # rest) g =
     (case find_nearest_neighbors embs item_id embedding k of
        Inl e \<Rightarrow> (Some e, g)
      | Inr neighbors \<Rightarrow>
          build_graph embs k rest (AList.update item_id (set (map res_id neighbors)) g))"

definition nsw_rebuild :: "DataRecord list \<Rightarrow> NSWIndex \<Rightarrow> py_error option \<times> NSWIndex" where
  "nsw_rebuild items s =
     (let embs = collect_embeddings items;
          (err, g) = build_graph embs (n_neighbors s) embs []
      in (err, s\<lparr>nsw_embeddings := embs, nsw_graph := g\<rparr>))"

text \<open>The loop of \<open>add\<close> that installs the reverse edges, lines 63 to 65.\<close>

fun link_back :: "uuid \<Rightarrow> SearchResult list \<Rightarrow> (uuid \<times> uuid set) list \<Rightarrow> (uuid \<times> uuid set) list" where
  "link_back item_id [] g = g"
| "link_back item_id (neighbor # rest) g =
     link_back item_id rest
       (if res_id neighbor \<in> fst ` set g
        then AList.map_entry (res_id neighbor) (insert item_id) g else g)"

definition nsw_add :: "DataRecord \<Rightarrow> NSWIndex \<Rightarrow> py_error option \<times> NSWIndex" where
  "nsw_add item s =
     (case embedding_of item of
        None \<Rightarrow> (None, s)
      | Some embedding \<Rightarrow>
          let s1 = s\<lparr>nsw_embeddings := AList.update (rec_id item) embedding (nsw_embeddings s)\<rparr>
          in case find_nearest_neighbors (nsw_embeddings s1) (rec_id item) embedding
                    (n_neighbors s) of
               Inl e \<Rightarrow> (Some e, s1)
             | Inr neighbors \<Rightarrow>
                 (None, s1\<lparr>nsw_graph :=
                    link_back (rec_id item) neighbors
                      (AList.update (rec_id item) (set (map res_id neighbors))
                         (nsw_graph s1))\<rparr>))"

text \<open>
  \<open>remove\<close>: the loop \<open>for neighbor_id in self.graph[item_id]\<close> discards the id from the
  out-set of every out-neighbour of the removed node that has an entry, and from no
  other out-set. (An out-set never holds its own key: the neighbour scan skips it.)
\<close>

definition nsw_remove :: "uuid \<Rightarrow> NSWIndex \<Rightarrow> NSWIndex" where
  "nsw_remove item_id s =
     (let embs = (if item_id \<in> fst ` set (nsw_embeddings s)
                  then AList.delete item_id (nsw_embeddings s) else nsw_embeddings s)
      in case map_of (nsw_graph s) item_id of
           None \<Rightarrow> s\<lparr>nsw_embeddings := embs\<rparr>
         | Some out \<Rightarrow>
             s\<lparr>nsw_embeddings := embs,
               nsw_graph :=
                 AList.delete item_id
                   (map (\<lambda>(neighbor_id, nbrs).
                           if neighbor_id \<in> out then (neighbor_id, nbrs - {item_id})
                           else (neighbor_id, nbrs))
                      (nsw_graph s))\<rparr>)"

text \<open>\<open>_cosine_similarity\<close>, lines 155 to 159.\<close>

definition cosine_similarity :: "vec \<Rightarrow> vec \<Rightarrow> py_error + pyfloat" where
  "cosine_similarity vec1 vec2 =
     (if np_norm vec1 = 0 \<or> np_norm vec2 = 0 then Inr (Fin 0)
      else
        case np_dot vec1 vec2 of
          Inl e \<Rightarrow> Inl e
        | Inr d \<Rightarrow> Inr (fdiv d (np_norm vec1 * np_norm vec2)))"

text \<open>\<open>max(candidates, key=lambda x: x[0])\<close>: the first candidate that no later one
  exceeds.\<close>

fun py_max_by :: "(pyfloat \<times> uuid) \<Rightarrow> (pyfloat \<times> uuid) list \<Rightarrow> (pyfloat \<times> uuid)" where
  "py_max_by best [] = best"
| "py_max_by best (x # xs) = py_max_by (if fl_lt (fst best) (fst x) then x else best) xs"

text \<open>The inner loop of \<open>search\<close> over the out-neighbours of the chosen node, lines 143
  to 149.\<close>

fun explore ::
  "(uuid \<times> vec) list \<Rightarrow> vec \<Rightarrow> uuid list \<Rightarrow> uuid set \<Rightarrow> (pyfloat \<times> uuid) list
     \<Rightarrow> py_error + (uuid set \<times> (pyfloat \<times> uuid) list)" where
  "explore embs query_vec [] visited candidates = Inr (visited, candidates)"
| "explore embs query_vec (neighbor_id # rest) visited candidates =
     (if neighbor_id \<notin> visited then
        (case map_of embs neighbor_id of
           None \<Rightarrow> Inl KeyError
         | Some v \<Rightarrow>
             (case cosine_similarity query_vec v of
                Inl e \<Rightarrow> Inl e
              | Inr neighbor_sim \<Rightarrow>
                  explore embs query_vec rest (insert neighbor_id visited)
                    (candidates @ [(neighbor_sim, neighbor_id)])))
      else explore embs query_vec rest visited candidates)"

text \<open>
  The test of lines 135 to 139. Python reads
  \<open>A and B if candidates else True\<close> as \<open>(A and B) if candidates else True\<close>: with no
  candidate left the loop is left at once, and otherwise it is left when there are
  \<open>limit\<close> results and the chosen similarity is below that of \<open>candidates[0]\<close>.
\<close>

definition stop_test :: "int \<Rightarrow> SearchResult list \<Rightarrow> pyfloat \<Rightarrow> (pyfloat \<times> uuid) list \<Rightarrow> bool" where
  "stop_test limit best_candidates similarity candidates =
     (if candidates \<noteq> []
      then limit \<le> int (length best_candidates) \<and> fl_lt similarity (fst (hd candidates))
      else True)"

text \<open>The \<open>while candidates\<close> loop, lines 129 to 149. Termination is not assumed: the
  loop returns \<open>None\<close> if it runs for ever.\<close>

partial_function (option) nsw_loop ::
  "NSWIndex \<Rightarrow> vec \<Rightarrow> int \<Rightarrow> (pyfloat \<times> uuid) list \<Rightarrow> uuid set \<Rightarrow> SearchResult list
     \<Rightarrow> (py_error + SearchResult list) option" where
  "nsw_loop s query_vec limit candidates visited best_candidates =
     (case candidates of
        [] \<Rightarrow> Some (Inr best_candidates)
      | c # cs \<Rightarrow>
          (case py_max_by c cs of
             (similarity, current_id) \<Rightarrow>
               let candidates1 = remove1 (similarity, current_id) candidates;
                   best1 = best_candidates @ [\<lparr>res_id = current_id, confidence = similarity\<rparr>]
               in if stop_test limit best1 similarity candidates1 then Some (Inr best1)
                  else
                    (case explore (nsw_embeddings s) query_vec
                            (sorted_list_of_set
                               (case map_of (nsw_graph s) current_id of
                                  Some out \<Rightarrow> out | None \<Rightarrow> {}))
                            visited candidates1 of
                       Inl e \<Rightarrow> Some (Inl e)
                     | Inr (visited2, candidates2) \<Rightarrow>
                         nsw_loop s query_vec limit candidates2 visited2 best1)))"

definition nsw_search ::
  "embedder \<Rightarrow> NSWIndex \<Rightarrow> string \<Rightarrow> int \<Rightarrow> (py_error + SearchResult list) option" where
  "nsw_search provider s query limit =
     (if nsw_embeddings s = [] then Some (Inr [])
      else
        case provider query of
          Inl e \<Rightarrow> Some (Inl e)
        | Inr query_vec \<Rightarrow>
            if np_norm query_vec = 0 then Some (Inr [])
            else
              (case nsw_graph s of
                 [] \<Rightarrow> Some (Inl StopIteration)
               | (entry_point, _) # _ \<Rightarrow>
                   (case map_of (nsw_embeddings s) entry_point of
                      None \<Rightarrow> Some (Inl KeyError)
                    | Some v \<Rightarrow>
                        (case cosine_similarity query_vec v of
                           Inl e \<Rightarrow> Some (Inl e)
                         | Inr sim \<Rightarrow>
                             (case nsw_loop s query_vec limit [(sim, entry_point)]
                                     {entry_point} [] of
                                None \<Rightarrow> None
                              | Some (Inl e) \<Rightarrow> Some (Inl e)
                              | Some (Inr best_candidates) \<Rightarrow>
                                  Some (Inr (py_take limit (sort_desc best_candidates))))))))"


text \<open>
  A sequence of calls on one index object. A call that raises is over, but the object
  stays, with whatever the call had written: the next call works on that state.
\<close>

datatype index_op = Rebuild "DataRecord list" | Add DataRecord | Remove uuid

fun nsw_exec :: "index_op \<Rightarrow> NSWIndex \<Rightarrow> py_error option \<times> NSWIndex" where
  "nsw_exec (Rebuild items) s = nsw_rebuild items s"
| "nsw_exec (Add item) s = nsw_add item s"
| "nsw_exec (Remove item_id) s = (None, nsw_remove item_id s)"

fun nsw_run :: "index_op list \<Rightarrow> NSWIndex \<Rightarrow> NSWIndex" where
  "nsw_run [] s = s"
| "nsw_run (c # cs) s = nsw_run cs (snd (nsw_exec c s))"

text \<open>\<open>nsw_clean cs s\<close>: none of the calls \<open>cs\<close>, made in turn from \<open>s\<close>, raises.\<close>

fun nsw_clean :: "index_op list \<Rightarrow> NSWIndex \<Rightarrow> bool" where
  "nsw_clean [] s = True"
| "nsw_clean (c # cs) s = (fst (nsw_exec c s) = None \<and> nsw_clean cs (snd (nsw_exec c s)))"

section \<open>IVFIndex\<close>

text \<open>
  The partitioner is scikit-learn's \<open>KMeans\<close>, which is not part of the repository. Of
  it the model keeps what the index relies on and what its documentation fixes:
  \<^item> a \<open>KMeans\<close> object is unfitted until \<open>fit\<close> succeeds, and then holds the centroids
    \<open>cluster_centers_\<close>;
  \<^item> \<open>fit\<close> raises \<open>ValueError\<close> for fewer than one cluster, for an input without
    samples or without features, and for fewer samples than clusters;
  \<^item> \<open>predict\<close> raises on an unfitted object (\<open>NotFittedError\<close>, which is an
    \<open>AttributeError\<close> and a \<open>ValueError\<close>, stands for the exception) and \<open>ValueError\<close> for a
    vector whose number of features is not that of the training data, and otherwise
    returns the index of the nearest centroid, the first one among equals;
  \<^item> \<open>fit_predict\<close> labels every training vector as \<open>predict\<close> would.
  Which centroids the training finds (Lloyd's algorithm from a seeded random start) is
  left open: the training is a parameter \<open>train\<close>, from a cluster count and the training
  vectors to the centroids.
\<close>

datatype KMeans = Unfitted int | Fitted "vec list"

type_synonym trainer = "nat \<Rightarrow> vec list \<Rightarrow> vec list"

definition euclid :: "vec \<Rightarrow> vec \<Rightarrow> real" where
  "euclid a b = sqrt (\<Sum>(x, y)\<leftarrow>zip a b. (x - y) * (x - y))"

text \<open>\<open>np.argsort(ds)\<close>: the indices in ascending order of their value. Equal values
  are taken in ascending order of index here; numpy's default sort is not stable and
  may order them otherwise.\<close>

definition argsort :: "real list \<Rightarrow> nat list" where
  "argsort ds = sort_key (\<lambda>i. ds ! i) [0..<length ds]"

definition kmeans_fit :: "trainer \<Rightarrow> int \<Rightarrow> vec list \<Rightarrow> py_error + KMeans" where
  "kmeans_fit train n X =
     (if n < 1 then Inl ValueError
      else if X = [] \<or> length (hd X) = 0 then Inl ValueError
      else if int (length X) < n then Inl ValueError
      else Inr (Fitted (train (nat n) X)))"

definition nearest_centroid :: "vec list \<Rightarrow> vec \<Rightarrow> nat" where
  "nearest_centroid centers x = hd (argsort (map (\<lambda>c. euclid c x) centers))"

definition kmeans_predict :: "KMeans \<Rightarrow> vec \<Rightarrow> py_error + nat" where
  "kmeans_predict km x =
     (case km of
        Unfitted _ \<Rightarrow> Inl NotFittedError
      | Fitted centers \<Rightarrow>
          if length x = 0 \<or> centers = [] \<or> length x \<noteq> length (hd centers)
          then Inl ValueError
          else Inr (nearest_centroid centers x))"

record IVFIndex =
  n_clusters :: int
  kmeans :: "KMeans option"
  cluster_assignments :: "(nat \<times> uuid list) list"
  ivf_embeddings :: "(uuid \<times> vec) list"

definition ivf_init :: "int \<Rightarrow> IVFIndex" where
  "ivf_init n = \<lparr>n_clusters = n, kmeans = None, cluster_assignments = [], ivf_embeddings = []\<rparr>"

text \<open>
  The four statements that \<open>rebuild\<close> (lines 78 to 82) and \<open>add\<close> (lines 105 to 110) share:
  create the member list of the cluster if there is none, append the id, store the
  vector.
\<close>

definition assign :: "nat \<Rightarrow> uuid \<Rightarrow> vec \<Rightarrow> IVFIndex \<Rightarrow> IVFIndex" where
  "assign cluster_id item_id embedding s =
     s\<lparr>cluster_assignments :=
         AList.map_entry cluster_id (\<lambda>ids. ids @ [item_id])
           (if cluster_id \<in> fst ` set (cluster_assignments s) then cluster_assignments s
            else AList.update cluster_id [] (cluster_assignments s)),
       ivf_embeddings := AList.update item_id embedding (ivf_embeddings s)\<rparr>"

text \<open>
  \<open>rebuild\<close>. \<open>np.array\<close> raises \<open>ValueError\<close> on embeddings of different lengths (numpy
  1.24 and later), before a new \<open>KMeans\<close> object is made; a \<open>fit_predict\<close> that raises
  leaves the new, unfitted object in \<open>self.kmeans\<close>.
\<close>

definition ivf_rebuild :: "trainer \<Rightarrow> DataRecord list \<Rightarrow> IVFIndex \<Rightarrow> py_error option \<times> IVFIndex" where
  "ivf_rebuild train items s =
     (let s0 = s\<lparr>cluster_assignments := [], ivf_embeddings := []\<rparr>;
          valid_items =
            List.map_filter
              (\<lambda>item. map_option (\<lambda>e. (rec_id item, e)) (embedding_of item)) items
      in if valid_items = [] then (None, s0)
         else
           let embeddings = map snd valid_items in
           if \<exists>e\<in>set embeddings. length e \<noteq> length (hd embeddings)
           then (Some ValueError, s0)
           else
             let n = min (n_clusters s) (int (length embeddings)) in
             case kmeans_fit train n embeddings of
               Inl e \<Rightarrow> (Some e, s0\<lparr>kmeans := Some (Unfitted n)\<rparr>)
             | Inr km \<Rightarrow>
                 (None,
                  fold (\<lambda>(item_id, embedding) st.
                          assign (case km of Fitted centers \<Rightarrow> nearest_centroid centers embedding
                                  | Unfitted _ \<Rightarrow> 0)
                            item_id embedding st)
                    valid_items (s0\<lparr>kmeans := Some km\<rparr>)))"

text \<open>\<open>add\<close>. The new \<open>KMeans\<close> object is assigned to \<open>self.kmeans\<close> before \<open>fit\<close> is
  called on it (lines 98 and 99), so it stays there, unfitted, when \<open>fit\<close> raises.\<close>

definition ivf_add :: "trainer \<Rightarrow> DataRecord \<Rightarrow> IVFIndex \<Rightarrow> py_error option \<times> IVFIndex" where
  "ivf_add train item s =
     (case embedding_of item of
        None \<Rightarrow> (None, s)
      | Some embedding \<Rightarrow>
          (case (case kmeans s of
                   None \<Rightarrow> kmeans_fit train (n_clusters s) [embedding]
                 | Some km \<Rightarrow> Inr km) of
             Inl e \<Rightarrow> (Some e, s\<lparr>kmeans := Some (Unfitted (n_clusters s))\<rparr>)
           | Inr km \<Rightarrow>
               (case kmeans_predict km embedding of
                  Inl e \<Rightarrow> (Some e, s\<lparr>kmeans := Some km\<rparr>)
                | Inr cluster_id \<Rightarrow>
                    (None, assign cluster_id (rec_id item) embedding (s\<lparr>kmeans := Some km\<rparr>)))))"

text \<open>\<open>remove\<close>: the first cluster, in the order of the dictionary, that lists the id
  loses its first occurrence, and the scan stops there.\<close>

fun remove_member :: "uuid \<Rightarrow> (nat \<times> uuid list) list \<Rightarrow> (nat \<times> uuid list) list" where
  "remove_member item_id [] = []"
| "remove_member item_id ((c, cluster_ids) # rest) =
     (if item_id \<in> set cluster_ids then (c, remove1 item_id cluster_ids) # rest
      else (c, cluster_ids) # remove_member item_id rest)"

definition ivf_remove :: "uuid \<Rightarrow> IVFIndex \<Rightarrow> IVFIndex" where
  "ivf_remove item_id s =
     (if item_id \<notin> fst ` set (ivf_embeddings s) then s
      else s\<lparr>cluster_assignments := remove_member item_id (cluster_assignments s),
             ivf_embeddings := AList.delete item_id (ivf_embeddings s)\<rparr>)"

text \<open>
  \<open>query.strip()\<close>. A character stands for a code point below 256; of these Python's
  \<open>str.isspace\<close> holds for tab to carriage return, the four separators 28 to 31, the
  space, and the code points 133 and 160.
\<close>

definition py_isspace :: "char \<Rightarrow> bool" where
  "py_isspace c = (of_char c \<in> {9, 10, 11, 12, 13, 28, 29, 30, 31, 32, 133, 160 :: nat})"

definition py_strip :: "string \<Rightarrow> string" where
  "py_strip s = rev (dropWhile py_isspace (rev (dropWhile py_isspace s)))"

text \<open>Lines 150 to 158: the probed clusters, nearest centroid first.\<close>

definition probed :: "vec list \<Rightarrow> (nat \<times> uuid list) list \<Rightarrow> vec \<Rightarrow> nat list" where
  "probed centers assignments query_vector =
     (let n_probe = min 3 (length assignments);
          cluster_dists = map (\<lambda>c. euclid c query_vector) centers
      in take n_probe (argsort cluster_dists))"

text \<open>Lines 161 to 164: the members of the probed clusters that have a member list.\<close>

definition gather :: "(nat \<times> uuid list) list \<Rightarrow> nat list \<Rightarrow> uuid list" where
  "gather assignments nearest_clusters =
     concat (map (\<lambda>cluster_id. case map_of assignments cluster_id of
                                   Some ids \<Rightarrow> ids | None \<Rightarrow> [])
               nearest_clusters)"

text \<open>Lines 170 to 178: the similarity of every candidate that has a vector. The
  division is not guarded here.\<close>

fun ivf_score :: "vec \<Rightarrow> (uuid \<times> vec) list \<Rightarrow> uuid list \<Rightarrow> py_error + SearchResult list" where
  "ivf_score query_vector embs [] = Inr []"
| "ivf_score query_vector embs (item_id # rest) =
     (case map_of embs item_id of
        None \<Rightarrow> ivf_score query_vector embs rest
      | Some vector \<Rightarrow>
          (case np_dot query_vector vector of
             Inl e \<Rightarrow> Inl e
           | Inr d \<Rightarrow>
               (case ivf_score query_vector embs rest of
                  Inl e \<Rightarrow> Inl e
                | Inr results \<Rightarrow>
                    Inr (\<lparr>res_id = item_id,
                          confidence = fdiv d (np_norm query_vector * np_norm vector)\<rparr>
                         # results))))"

definition ivf_search :: "embedder \<Rightarrow> IVFIndex \<Rightarrow> string \<Rightarrow> int \<Rightarrow> py_error + SearchResult list" where
  "ivf_search provider s query limit =
     (if py_strip query = [] \<or> kmeans s = None \<or> ivf_embeddings s = [] then Inr []
      else
        case provider query of
          Inl e \<Rightarrow> Inl e
        | Inr query_vector \<Rightarrow>
            (case kmeans_predict (the (kmeans s)) query_vector of
               Inl e \<Rightarrow> Inl e
             | Inr _ \<Rightarrow>
                 let centers = (case the (kmeans s) of Fitted cs \<Rightarrow> cs | Unfitted _ \<Rightarrow> []);
                     nearest_clusters = probed centers (cluster_assignments s) query_vector;
                     candidates = gather (cluster_assignments s) nearest_clusters
                 in if candidates = [] then Inr []
                    else
                      (case ivf_score query_vector (ivf_embeddings s) candidates of
                         Inl e \<Rightarrow> Inl e
                       | Inr results \<Rightarrow> Inr (py_take limit (sort_desc results)))))"

text \<open>
  The same search over any ordering of the distances. \<open>np.argsort\<close> sorts with an
  unstable algorithm by default, so among equal distances the order of the indices is
  that of numpy's implementation, and the distances themselves are rounded. Both are
  parameters here: \<open>srt\<close> for \<open>np.argsort\<close> and \<open>cdist\<close> for the distance computed between
  a centroid and the query vector. \<open>is_argsort ds order\<close> is the contract of
  \<open>np.argsort\<close>: \<open>order\<close> lists every index of \<open>ds\<close> once, in ascending order of the
  values.
\<close>

definition is_argsort :: "real list \<Rightarrow> nat list \<Rightarrow> bool" where
  "is_argsort ds order =
     (length order = length ds \<and> set order = {..<length ds}
      \<and> sorted (map (\<lambda>i. ds ! i) order))"

definition probed_by ::
  "(real list \<Rightarrow> nat list) \<Rightarrow> (vec \<Rightarrow> vec \<Rightarrow> real) \<Rightarrow> vec list \<Rightarrow> (nat \<times> uuid list) list
     \<Rightarrow> vec \<Rightarrow> nat list" where
  "probed_by srt cdist centers assignments query_vector =
     (let n_probe = min 3 (length assignments);
          cluster_dists = map (\<lambda>c. cdist c query_vector) centers
      in take n_probe (srt cluster_dists))"

definition ivf_search_by ::
  "(real list \<Rightarrow> nat list) \<Rightarrow> (vec \<Rightarrow> vec \<Rightarrow> real) \<Rightarrow> embedder \<Rightarrow> IVFIndex \<Rightarrow> string \<Rightarrow> int
     \<Rightarrow> py_error + SearchResult list" where
  "ivf_search_by srt cdist provider s query limit =
     (if py_strip query = [] \<or> kmeans s = None \<or> ivf_embeddings s = [] then Inr []
      else
        case provider query of
          Inl e \<Rightarrow> Inl e
        | Inr query_vector \<Rightarrow>
            (case kmeans_predict (the (kmeans s)) query_vector of
               Inl e \<Rightarrow> Inl e
             | Inr _ \<Rightarrow>
                 let centers = (case the (kmeans s) of Fitted cs \<Rightarrow> cs | Unfitted _ \<Rightarrow> []);
                     nearest_clusters =
                       probed_by srt cdist centers (cluster_assignments s) query_vector;
                     candidates = gather (cluster_assignments s) nearest_clusters
                 in if candidates = [] then Inr []
                    else
                      (case ivf_score query_vector (ivf_embeddings s) candidates of
                         Inl e \<Rightarrow> Inl e
                       | Inr results \<Rightarrow> Inr (py_take limit (sort_desc results)))))"

fun ivf_exec :: "trainer \<Rightarrow> index_op \<Rightarrow> IVFIndex \<Rightarrow> py_error option \<times> IVFIndex" where
  "ivf_exec train (Rebuild items) s = ivf_rebuild train items s"
| "ivf_exec train (Add item) s = ivf_add train item s"
| "ivf_exec train (Remove item_id) s = (None, ivf_remove item_id s)"

fun ivf_run :: "trainer \<Rightarrow> index_op list \<Rightarrow> IVFIndex \<Rightarrow> IVFIndex" where
  "ivf_run train [] s = s"
| "ivf_run train (c # cs) s = ivf_run train cs (snd (ivf_exec train c s))"


section \<open>Predicates of the properties\<close>

text \<open>No id is a member of two clusters.\<close>

definition one_cluster_each :: "(nat \<times> uuid list) list \<Rightarrow> bool" where
  "one_cluster_each ca =
     (\<forall>c c' ids ids'. map_of ca c = Some ids \<and> map_of ca c' = Some ids' \<and> c \<noteq> c'
        \<longrightarrow> set ids \<inter> set ids' = {})"

text \<open>The embedding map and the adjacency map have the same keys.\<close>

definition nsw_keys_agree :: "NSWIndex \<Rightarrow> bool" where
  "nsw_keys_agree s = (fst ` set (nsw_embeddings s) = fst ` set (nsw_graph s))"




text \<open>A trained index of four clusters with one member each, for the examples.\<close>

definition ivf_example :: IVFIndex where
  "ivf_example =
     \<lparr>n_clusters = 4, kmeans = Some (Fitted [[1, 0], [0, 0], [1, 1], [3, 0]]),
      cluster_assignments = [(0, [1]), (1, [2]), (2, [3]), (3, [4])],
      ivf_embeddings = [(1, [1, 0]), (2, [0, 1]), (3, [0, 2]), (4, [3, 0])]\<rparr>"

section \<open>Sorting and slicing\<close>




lemma set_insert_desc: "set (insert_desc x xs) = insert x (set xs)"
  by (induction xs) auto

lemma set_sort_desc: "set (sort_desc xs) = set xs"
  by (induction xs) (auto simp: set_insert_desc)









lemma fdiv_fin: "b \<noteq> 0 \<Longrightarrow> fdiv a b = Fin (a / b)"
  by (simp add: fdiv_def)

section \<open>Brute force is exact\<close>

text \<open>With the exact arithmetic the search is \<^const>\<open>bf_search\<close>, and the computed
  similarity is the cosine similarity.\<close>

lemma exact_norm: "f_norm exact_ops v = Fin (np_norm v)"
  by (simp add: exact_ops_def)

lemma exact_similarity:
  "similarity_fp exact_ops q v =
     (if np_norm q * np_norm v = 0 then Fin 0
      else fdiv (\<Sum>(x, y)\<leftarrow>zip q v. x * y) (np_norm q * np_norm v))"
  by (simp add: similarity_fp_def exact_ops_def)

lemma bf_scan_fp_exact: "bf_scan_fp exact_ops q embs = bf_scan q embs"
proof (induction embs)
  case Nil
  then show ?case by simp
next
  case (Cons p embs)
  obtain i v where p: "p = (i, v)" by (cases p)
  show ?case using Cons p
    by (simp add: exact_norm exact_similarity np_dot_def Let_def split: sum.splits)
qed

lemma bf_search_fp_exact:
  "bf_search_fp exact_ops provider embs query limit = bf_search provider embs query limit"
  by (simp add: bf_search_fp_def bf_search_def bf_scan_fp_exact exact_norm split: sum.splits)

lemma similarity_exact:
  "np_norm q \<noteq> 0 \<Longrightarrow> np_norm v \<noteq> 0 \<Longrightarrow> similarity_fp exact_ops q v = Fin (cosine q v)"
  by (simp add: exact_similarity cosine_def fdiv_def)





section \<open>The traversal of the NSW search\<close>

text \<open>With one candidate the loop body runs once: the candidate is chosen, the list
  is empty, and the test of line 135 leaves the loop before any neighbour is looked at.\<close>

lemma nsw_loop_single:
  "nsw_loop s q limit [c] visited best =
     Some (Inr (best @ [\<lparr>res_id = snd c, confidence = fst c\<rparr>]))"
  by (cases c) (simp add: nsw_loop.simps stop_test_def)

text \<open>Hence every search returns, and with at most the entry point.\<close>

lemma nsw_search_returns: "\<exists>r. nsw_search provider s query limit = Some r"
  by (auto simp: nsw_search_def nsw_loop_single split: sum.splits list.splits option.splits)

lemma py_take_single: "py_take limit [x] = [] \<or> py_take limit [x] = [x]"
  by (cases "nat limit") (auto simp: py_take_def)

lemma nsw_search_entry_only:
  assumes "nsw_search provider s query limit = Some (Inr res)"
  shows "length res \<le> 1 \<and> (\<forall>r\<in>set res. \<exists>nbrs rest. nsw_graph s = (res_id r, nbrs) # rest)"
proof (cases "res = []")
  case True
  then show ?thesis by simp
next
  case False
  then obtain q entry_point nbrs rest v sim where
    g: "nsw_graph s = (entry_point, nbrs) # rest"
    and r: "res = py_take limit [\<lparr>res_id = entry_point, confidence = sim\<rparr>]"
    using assms
    by (auto simp: nsw_search_def nsw_loop_single
        split: sum.splits list.splits option.splits if_splits)
  from r False py_take_single [of limit "\<lparr>res_id = entry_point, confidence = sim\<rparr>"]
  have "res = [\<lparr>res_id = entry_point, confidence = sim\<rparr>]" by auto
  with g show ?thesis by simp
qed

lemma nsw_two_nodes:
  "nsw_run [Add (Chunk 1 (Some [1, 0])), Add (Chunk 2 (Some [0, 1]))] (nsw_init 5 100)
   = \<lparr>nsw_embeddings = [(1, [1, 0]), (2, [0, 1])], nsw_graph = [(1, {2}), (2, {1})],
      n_neighbors = 5, ef_construction = 100\<rparr>"
  by (simp add: nsw_init_def nsw_add_def find_nearest_neighbors_def np_norm_def np_dot_def
      fdiv_def py_take_def result_key_def)

text \<open>
  Claim C2. The claim has the traversal stop when no candidate is left, or when there
  are \<open>k\<close> results and the next candidate is worse than the chosen node. The code tests
  after it has removed the chosen node from the candidates and before it adds the
  node's neighbours: at the first test the list is always empty, and the loop is left.
  Two records \<open>[1, 0]\<close> and \<open>[0, 1]\<close> are added and linked to each other; a search for
  two results with the query vector \<open>[0, 1]\<close> returns the entry point alone, with
  similarity 0, and never looks at its neighbour, whose similarity is 1. The other arm
  of the test compares the wrong way round: with one result held for \<open>k = 1\<close>, a chosen
  similarity of 1 and a remaining candidate of similarity 0, it does not stop.
\<close>

theorem nsw_search_stops_at_entry:
  "nsw_search (\<lambda>_. Inr [0, 1])
     (nsw_run [Add (Chunk 1 (Some [1, 0])), Add (Chunk 2 (Some [0, 1]))] (nsw_init 5 100))
     ''q'' 2 = Some (Inr [\<lparr>res_id = 1, confidence = Fin 0\<rparr>])
   \<and> stop_test 1 [\<lparr>res_id = 2, confidence = Fin 1\<rparr>] (Fin 1) [(Fin 0, 1)] = False"
  unfolding nsw_two_nodes
  by (simp add: nsw_search_def cosine_similarity_def np_norm_def np_dot_def fdiv_def
      nsw_loop_single py_take_def result_key_def stop_test_def)

section \<open>Referential consistency\<close>

lemma sqrt_25: "sqrt 25 = 5"
  using real_sqrt_abs [of 5] by simp

lemma nsw_three_nodes:
  "nsw_rebuild [Chunk 1 (Some [1, 0]), Chunk 2 (Some [3, 4]), Chunk 3 (Some [0, 1])] (nsw_init 1 100)
   = (None, \<lparr>nsw_embeddings = [(1, [1, 0]), (2, [3, 4]), (3, [0, 1])],
              nsw_graph = [(1, {2}), (2, {3}), (3, {2})],
              n_neighbors = 1, ef_construction = 100\<rparr>)"
  by (simp add: nsw_rebuild_def nsw_init_def collect_embeddings_def find_nearest_neighbors_def
      np_norm_def np_dot_def fdiv_def py_take_def result_key_def sqrt_25)

lemma nsw_dangling:
  "nsw_run [Rebuild [Chunk 1 (Some [1, 0]), Chunk 2 (Some [3, 4]), Chunk 3 (Some [0, 1])], Remove 2]
     (nsw_init 1 100)
   = \<lparr>nsw_embeddings = [(1, [1, 0]), (3, [0, 1])], nsw_graph = [(1, {2}), (3, {})],
      n_neighbors = 1, ef_construction = 100\<rparr>"
  by (simp only: nsw_run.simps nsw_exec.simps nsw_three_nodes snd_conv) (simp add: nsw_remove_def)

text \<open>
  A training that takes the first \<open>n\<close> vectors for centroids. For as many clusters as
  there are distinct vectors it is what k-means converges to: every vector is its own
  centroid.
\<close>

lemma ivf_two_clusters:
  "ivf_rebuild (\<lambda>n X. take n X) [Chunk 7 (Some [1, 0]), Chunk 8 (Some [0, 1])] (ivf_init 2)
   = (None, \<lparr>n_clusters = 2, kmeans = Some (Fitted [[1, 0], [0, 1]]),
        cluster_assignments = [(0, [7]), (1, [8])],
        ivf_embeddings = [(7, [1, 0]), (8, [0, 1])]\<rparr>)"
  by (simp add: ivf_rebuild_def ivf_init_def List.map_filter_def kmeans_fit_def assign_def
      nearest_centroid_def argsort_def euclid_def)

lemma ivf_listed_twice:
  "ivf_run (\<lambda>n X. take n X)
     [Rebuild [Chunk 7 (Some [1, 0]), Chunk 8 (Some [0, 1])],
      Add (Chunk 1 (Some [1, 0])), Add (Chunk 1 (Some [0, 1]))] (ivf_init 2)
   = \<lparr>n_clusters = 2, kmeans = Some (Fitted [[1, 0], [0, 1]]),
        cluster_assignments = [(0, [7, 1]), (1, [8, 1])],
        ivf_embeddings = [(7, [1, 0]), (8, [0, 1]), (1, [0, 1])]\<rparr>"
  by (simp only: ivf_run.simps ivf_exec.simps ivf_two_clusters snd_conv)
    (simp add: ivf_add_def kmeans_predict_def assign_def
      nearest_centroid_def argsort_def euclid_def)

text \<open>
  Claim C4. The invariant of the claim is broken by both indexes.
  NSW: with one neighbour per node, a rebuild over \<open>[1, 0]\<close>, \<open>[3, 4]\<close>, \<open>[0, 1]\<close> (ids 1,
  2, 3) gives the edges 1 to 2, 2 to 3 and 3 to 2. The removal of node 2 discards the
  id from the out-sets of the out-neighbours of node 2 only, that is from node 3: node 1
  keeps the out-neighbour 2, which has no vector any more.
  IVF: a record added a second time, under the same id with another vector, is
  appended to the member list of its new cluster and stays in the old one: id 1 is a
  member of the clusters 0 and 1 at once.
\<close>

theorem referential_consistency_broken:
  "(let s = nsw_run [Rebuild [Chunk 1 (Some [1, 0]), Chunk 2 (Some [3, 4]), Chunk 3 (Some [0, 1])],
                     Remove 2] (nsw_init 1 100)
    in map_of (nsw_graph s) 1 = Some {2} \<and> map_of (nsw_embeddings s) 2 = None)
   \<and> (let t = ivf_run (\<lambda>n X. take n X)
                 [Rebuild [Chunk 7 (Some [1, 0]), Chunk 8 (Some [0, 1])],
                  Add (Chunk 1 (Some [1, 0])), Add (Chunk 1 (Some [0, 1]))] (ivf_init 2)
       in map_of (cluster_assignments t) 0 = Some [7, 1]
        \<and> map_of (cluster_assignments t) 1 = Some [8, 1])"
  unfolding nsw_dangling ivf_listed_twice by simp

section \<open>Zero norms in the IVF search\<close>

lemma ivf_zero_vector:
  "ivf_rebuild (\<lambda>n X. take n X) [Chunk 1 (Some [0, 0])] (ivf_init 100)
   = (None, \<lparr>n_clusters = 100, kmeans = Some (Fitted [[0, 0]]),
        cluster_assignments = [(0, [1])], ivf_embeddings = [(1, [0, 0])]\<rparr>)"
  by (simp add: ivf_rebuild_def ivf_init_def List.map_filter_def kmeans_fit_def assign_def
      nearest_centroid_def argsort_def euclid_def)

text \<open>
  Claim C6. The brute-force and NSW searches test the norms before they divide; the IVF
  search does not. An index rebuilt over the one record \<open>[0, 0]\<close> is searched with the
  query vector \<open>[1, 0]\<close>: the similarity of the stored zero vector is \<open>0.0 / 0.0\<close>, and
  the search returns the record with the confidence \<open>nan\<close>, which is not \<open>0.0\<close>.
\<close>

theorem ivf_search_zero_norm_nan:
  "ivf_search (\<lambda>_. Inr [1, 0])
     (snd (ivf_rebuild (\<lambda>n X. take n X) [Chunk 1 (Some [0, 0])] (ivf_init 100))) ''q'' 5
   = Inr [\<lparr>res_id = 1, confidence = NaN\<rparr>]"
  unfolding ivf_zero_vector
  by (simp add: ivf_search_def py_strip_def py_isspace_def kmeans_predict_def probed_def
      gather_def argsort_def euclid_def np_dot_def np_norm_def fdiv_def py_take_def)

section \<open>The first add on an untrained IVF index\<close>

text \<open>
  Claim C7. \<open>IVFIndex()\<close> asks for 100 clusters. The first \<open>add\<close> on the untrained index
  makes a \<open>KMeans\<close> for these 100 clusters and fits it to the one new vector, which
  \<open>fit\<close> refuses: the call raises \<open>ValueError\<close>, nothing is assigned to a cluster, and
  the unfitted object stays in \<open>self.kmeans\<close>. \<open>rebuild\<close> asks for no more clusters than
  there are vectors; \<open>add\<close> does not.
\<close>

theorem ivf_add_untrained_raises:
  "ivf_add train (Chunk 1 (Some [1, 0])) (ivf_init 100)
   = (Some ValueError, \<lparr>n_clusters = 100, kmeans = Some (Unfitted 100),
        cluster_assignments = [], ivf_embeddings = []\<rparr>)"
  by (simp add: ivf_add_def ivf_init_def kmeans_fit_def)


section \<open>Blank queries\<close>

lemma py_strip_blank:
  assumes "\<forall>c\<in>set query. py_isspace c"
  shows "py_strip query = []"
proof -
  have d: "dropWhile py_isspace query = []" using assms by (induction query) auto
  show ?thesis unfolding py_strip_def d by simp
qed

text \<open>
  Claim C10. For a query that is empty or all whitespace the IVF search returns the
  empty list, whatever the state of the index and whatever the provider would do: it is
  not called. The brute-force and NSW searches make no such test: on a non-empty index
  they call the provider with the same query, and if the provider fails, so do they.
\<close>

theorem ivf_blank_query:
  assumes "\<forall>c\<in>set query. py_isspace c"
  shows "ivf_search provider s query limit = Inr []
    \<and> (embs \<noteq> [] \<and> provider query = Inl e \<longrightarrow> bf_search provider embs query limit = Inl e)
    \<and> (nsw_embeddings t \<noteq> [] \<and> provider query = Inl e
         \<longrightarrow> nsw_search provider t query limit = Some (Inl e))"
  using assms by (simp add: ivf_search_def py_strip_blank bf_search_def nsw_search_def)

theorem ivf_blank_query_witness:
  "ivf_search (\<lambda>_. Inl EmbeddingUnavailable)
     \<lparr>n_clusters = 1, kmeans = Some (Fitted [[1, 0]]), cluster_assignments = [(0, [1])],
      ivf_embeddings = [(1, [1, 0])]\<rparr> '' '' 5 = Inr []
   \<and> bf_search (\<lambda>_. Inl EmbeddingUnavailable) [(1, [1, 0])] '' '' 5 = Inl EmbeddingUnavailable
   \<and> nsw_search (\<lambda>_. Inl EmbeddingUnavailable)
       \<lparr>nsw_embeddings = [(1, [1, 0])], nsw_graph = [(1, {})], n_neighbors = 5,
        ef_construction = 100\<rparr> '' '' 5 = Some (Inl EmbeddingUnavailable)"
  using ivf_blank_query [of "'' ''" "\<lambda>_. Inl EmbeddingUnavailable"
      "\<lparr>n_clusters = 1, kmeans = Some (Fitted [[1, 0]]), cluster_assignments = [(0, [1])],
        ivf_embeddings = [(1, [1, 0])]\<rparr>" 5 "[(1, [1, 0])]" EmbeddingUnavailable
      "\<lparr>nsw_embeddings = [(1, [1, 0])], nsw_graph = [(1, {})], n_neighbors = 5,
        ef_construction = 100\<rparr>"]
  by (simp add: py_isspace_def)

section \<open>Locality of the IVF search\<close>

lemma ivf_score_ids:
  "ivf_score q embs cands = Inr res \<Longrightarrow> res_id ` set res \<subseteq> set cands"
proof (induction cands arbitrary: res)
  case Nil
  then show ?case by simp
next
  case (Cons a cands)
  show ?case
  proof (cases "map_of embs a")
    case None
    then show ?thesis using Cons by auto
  next
    case (Some v)
    then obtain d rest where "ivf_score q embs cands = Inr rest"
      and "res = \<lparr>res_id = a, confidence = fdiv d (np_norm q * np_norm v)\<rparr> # rest"
      using Cons.prems by (auto split: sum.splits)
    then show ?thesis using Cons.IH [of rest] by auto
  qed
qed

lemma gather_member:
  "x \<in> set (gather ca cl) \<longleftrightarrow> (\<exists>c\<in>set cl. \<exists>ids. map_of ca c = Some ids \<and> x \<in> set ids)"
  unfolding gather_def by (induction cl) (auto split: option.splits)

lemma set_py_take: "set (py_take limit xs) \<subseteq> set xs"
  by (auto simp: py_take_def dest: in_set_takeD)

lemma probed_by_argsort: "probed_by argsort euclid = probed"
  by (intro ext) (simp add: probed_by_def probed_def)

lemma ivf_search_by_argsort: "ivf_search_by argsort euclid = ivf_search"
  by (intro ext) (simp only: ivf_search_by_def ivf_search_def probed_by_argsort)

lemma is_argsort_argsort: "is_argsort ds (argsort ds)"
  by (auto simp: is_argsort_def argsort_def)

lemma is_argsort_take_nearest:
  assumes "is_argsort ds order" "c \<in> set (take n order)" "c' < length ds"
    "c' \<notin> set (take n order)"
  shows "ds ! c \<le> ds ! c'"
proof -
  have "c' \<in> set order" using assms(1,3) by (simp add: is_argsort_def)
  then have "c' \<in> set (drop n order)"
    using assms(4) by (metis Un_iff append_take_drop_id set_append)
  moreover have "sorted (map (\<lambda>i. ds ! i) (take n order) @ map (\<lambda>i. ds ! i) (drop n order))"
    using assms(1) unfolding is_argsort_def by (metis append_take_drop_id map_append)
  ultimately show ?thesis using assms(2) by (auto simp: sorted_append)
qed

text \<open>
  What holds of every search, whatever order \<open>np.argsort\<close> gives to equal distances. Let
  an IVF search on a trained index with centroids \<open>centers\<close> return a result \<open>r\<close>, for a
  query embedded as \<open>q\<close>. The probed clusters are \<open>min(3, number of member lists)\<close> many
  (the index has no more member lists than centroids), and no centroid of a cluster that
  is not probed is nearer to \<open>q\<close>, by the computed distance, than the centroid of a probed
  one. The id of \<open>r\<close> is a member of a probed cluster. Where no id is a member of two
  clusters, the id of \<open>r\<close> is a member of no cluster that is not probed.
\<close>

lemma ivf_search_locality:
  assumes "ivf_search_by srt cdist provider s query limit = Inr res"
    and "kmeans s = Some (Fitted centers)" and "provider query = Inr q"
    and "is_argsort (map (\<lambda>c. cdist c q) centers) (srt (map (\<lambda>c. cdist c q) centers))"
    and "r \<in> set res"
  shows "(\<exists>c\<in>set (probed_by srt cdist centers (cluster_assignments s) q).
            \<exists>ids. map_of (cluster_assignments s) c = Some ids \<and> res_id r \<in> set ids)
     \<and> length (probed_by srt cdist centers (cluster_assignments s) q)
         = min (min 3 (length (cluster_assignments s))) (length centers)
     \<and> (\<forall>c\<in>set (probed_by srt cdist centers (cluster_assignments s) q). \<forall>c'<length centers.
           c' \<notin> set (probed_by srt cdist centers (cluster_assignments s) q)
           \<longrightarrow> cdist (centers ! c) q \<le> cdist (centers ! c') q)
     \<and> (one_cluster_each (cluster_assignments s) \<longrightarrow>
          (\<forall>c ids. map_of (cluster_assignments s) c = Some ids \<and> res_id r \<in> set ids
             \<longrightarrow> c \<in> set (probed_by srt cdist centers (cluster_assignments s) q)))"
proof -
  let ?ca = "cluster_assignments s"
  let ?P = "probed_by srt cdist centers ?ca q"
  let ?ds = "map (\<lambda>c. cdist c q) centers"
  have P: "?P = take (min 3 (length ?ca)) (srt ?ds)"
    by (simp add: probed_by_def)
  have ord: "is_argsort ?ds (srt ?ds)" by (rule assms(4))
  obtain results where sc: "ivf_score q (ivf_embeddings s) (gather ?ca ?P) = Inr results"
    and res: "res = py_take limit (sort_desc results)"
    using assms(1,2,3,5) by (auto simp: ivf_search_by_def Let_def split: if_splits sum.splits)
  have "r \<in> set results" using assms(5) res set_py_take by (fastforce simp: set_sort_desc)
  then have "res_id r \<in> set (gather ?ca ?P)" using ivf_score_ids [OF sc] by auto
  then have first: "\<exists>c\<in>set ?P. \<exists>ids. map_of ?ca c = Some ids \<and> res_id r \<in> set ids"
    by (simp add: gather_member)
  have len: "length ?P = min (min 3 (length ?ca)) (length centers)"
    using ord by (simp add: P is_argsort_def min.commute)
  have near: "\<forall>c\<in>set ?P. \<forall>c'<length centers. c' \<notin> set ?P
       \<longrightarrow> cdist (centers ! c) q \<le> cdist (centers ! c') q"
  proof (intro ballI allI impI)
    fix c c' assume c: "c \<in> set ?P" and c': "c' < length centers" and n: "c' \<notin> set ?P"
    have "c \<in> set (srt ?ds)" using c P by (auto dest: in_set_takeD)
    then have cl: "c < length centers" using ord by (simp add: is_argsort_def)
    have "?ds ! c \<le> ?ds ! c'"
      using is_argsort_take_nearest [OF ord, of c "min 3 (length ?ca)" c'] c c' n P by simp
    then show "cdist (centers ! c) q \<le> cdist (centers ! c') q" using cl c' by simp
  qed
  have only: "one_cluster_each ?ca \<longrightarrow>
          (\<forall>c ids. map_of ?ca c = Some ids \<and> res_id r \<in> set ids \<longrightarrow> c \<in> set ?P)"
    using first unfolding one_cluster_each_def by (metis disjoint_iff)
  show ?thesis using first len near only by blast
qed

lemma ivf_example_search:
  "ivf_search (\<lambda>_. Inr [1, 0]) ivf_example ''q'' 5
     = Inr [\<lparr>res_id = 1, confidence = Fin 1\<rparr>, \<lparr>res_id = 2, confidence = Fin 0\<rparr>,
            \<lparr>res_id = 3, confidence = Fin 0\<rparr>]"
  by (simp add: ivf_search_def ivf_example_def py_strip_def py_isspace_def kmeans_predict_def
      probed_def argsort_def euclid_def gather_def np_dot_def np_norm_def fdiv_def py_take_def
      result_key_def)

lemma ivf_example_one_cluster_each: "one_cluster_each (cluster_assignments ivf_example)"
  by (auto simp: one_cluster_each_def ivf_example_def split: if_splits)

lemma ivf_example_search_by:
  "ivf_search_by argsort euclid (\<lambda>_. Inr [1, 0]) ivf_example ''q'' 5
     = Inr [\<lparr>res_id = 1, confidence = Fin 1\<rparr>, \<lparr>res_id = 2, confidence = Fin 0\<rparr>,
            \<lparr>res_id = 3, confidence = Fin 0\<rparr>]"
  unfolding ivf_search_by_argsort by (rule ivf_example_search)

lemma ivf_search_locality_example:
  "(\<exists>c\<in>set (probed_by argsort euclid [[1, 0], [0, 0], [1, 1], [3, 0]]
               (cluster_assignments ivf_example) [1, 0]).
      \<exists>ids. map_of (cluster_assignments ivf_example) c = Some ids \<and> 1 \<in> set ids)
   \<and> length (probed_by argsort euclid [[1, 0], [0, 0], [1, 1], [3, 0]]
               (cluster_assignments ivf_example) [1, 0])
       = min (min 3 (length (cluster_assignments ivf_example))) 4
   \<and> euclid ([[1, 0], [0, 0], [1, 1], [3, 0]] ! 2) [1, 0]
       \<le> euclid ([[1, 0], [0, 0], [1, 1], [3, 0]] ! 3) [1, 0]
   \<and> 0 \<in> set (probed_by argsort euclid [[1, 0], [0, 0], [1, 1], [3, 0]]
               (cluster_assignments ivf_example) [1, 0])"
proof -
  let ?cs = "[[1, 0], [0, 0], [1, 1], [3::real, 0]]"
  let ?P = "probed_by argsort euclid ?cs (cluster_assignments ivf_example) [1, 0]"
  have P: "?P = [0, 1, 2]"
    by (simp add: ivf_example_def probed_by_def argsort_def euclid_def)
  have fit: "kmeans ivf_example = Some (Fitted ?cs)"
    by (simp add: ivf_example_def)
  have r: "\<lparr>res_id = 1, confidence = Fin 1\<rparr>
      \<in> set [\<lparr>res_id = 1, confidence = Fin 1\<rparr>, \<lparr>res_id = 2, confidence = Fin 0\<rparr>,
             \<lparr>res_id = 3, confidence = Fin 0\<rparr>]"
    by simp
  have q: "(\<lambda>_. Inr [1, 0]) ''q'' = (Inr [1, 0] :: py_error + vec)" by simp
  note loc = ivf_search_locality [OF ivf_example_search_by fit q is_argsort_argsort r]
  have listed: "map_of (cluster_assignments ivf_example) 0 = Some [1]"
    by (simp add: ivf_example_def)
  have "2 \<in> set ?P" and "3 \<notin> set ?P" and "(3::nat) < length ?cs"
    by (simp_all add: P)
  then have near: "euclid (?cs ! 2) [1, 0] \<le> euclid (?cs ! 3) [1, 0]"
    using loc by blast
  have only: "0 \<in> set ?P"
    using loc ivf_example_one_cluster_each listed by simp
  show ?thesis using loc near only by simp
qed

lemma sqrt_9: "sqrt 9 = 3"
  using real_sqrt_abs [of 3] by simp

lemma sqrt_16: "sqrt 16 = 4"
  using real_sqrt_abs [of 4] by simp

lemma ivf_four_clusters:
  "ivf_rebuild (\<lambda>n X. take n X)
     [Chunk 1 (Some [1, 0]), Chunk 2 (Some [2, 0]), Chunk 3 (Some [3, 0]), Chunk 4 (Some [4, 0])]
     (ivf_init 4)
   = (None, \<lparr>n_clusters = 4, kmeans = Some (Fitted [[1, 0], [2, 0], [3, 0], [4, 0]]),
        cluster_assignments = [(0, [1]), (1, [2]), (2, [3]), (3, [4])],
        ivf_embeddings = [(1, [1, 0]), (2, [2, 0]), (3, [3, 0]), (4, [4, 0])]\<rparr>)"
  by (simp add: ivf_rebuild_def ivf_init_def List.map_filter_def kmeans_fit_def assign_def
      nearest_centroid_def argsort_def euclid_def sqrt_9)

lemma ivf_nine_twice:
  "ivf_run (\<lambda>n X. take n X)
     [Rebuild [Chunk 1 (Some [1, 0]), Chunk 2 (Some [2, 0]), Chunk 3 (Some [3, 0]),
               Chunk 4 (Some [4, 0])],
      Add (Chunk 9 (Some [1, 0])), Add (Chunk 9 (Some [4, 0]))] (ivf_init 4)
   = \<lparr>n_clusters = 4, kmeans = Some (Fitted [[1, 0], [2, 0], [3, 0], [4, 0]]),
        cluster_assignments = [(0, [1, 9]), (1, [2]), (2, [3]), (3, [4, 9])],
        ivf_embeddings = [(1, [1, 0]), (2, [2, 0]), (3, [3, 0]), (4, [4, 0]), (9, [4, 0])]\<rparr>"
  by (simp only: ivf_run.simps ivf_exec.simps ivf_four_clusters snd_conv)
    (simp add: ivf_add_def kmeans_predict_def assign_def
      nearest_centroid_def argsort_def euclid_def sqrt_9)

text \<open>
  Claim C5. The claim has no returned id belong to a cluster that is not probed. That
  rests on every id being a member of one cluster only, which \<open>add\<close> does not keep: it
  appends the id to the member list of the predicted cluster and looks for no earlier
  membership. Four records are the centroids of four clusters; record 9 is added with the
  vector \<open>[1, 0]\<close>, to cluster 0, and again with the vector \<open>[4, 0]\<close>, to cluster 3, and
  stays in both. A query at \<open>[1, 0]\<close> probes the clusters 0, 1 and 2 and returns id 9, a
  member of cluster 3, which is not probed.
\<close>

theorem ivf_search_returns_unprobed_member:
  "(let s = ivf_run (\<lambda>n X. take n X)
              [Rebuild [Chunk 1 (Some [1, 0]), Chunk 2 (Some [2, 0]), Chunk 3 (Some [3, 0]),
                        Chunk 4 (Some [4, 0])],
               Add (Chunk 9 (Some [1, 0])), Add (Chunk 9 (Some [4, 0]))] (ivf_init 4)
    in ivf_search (\<lambda>_. Inr [1, 0]) s ''q'' 5
         = Inr [\<lparr>res_id = 1, confidence = Fin 1\<rparr>, \<lparr>res_id = 9, confidence = Fin 1\<rparr>,
                \<lparr>res_id = 2, confidence = Fin 1\<rparr>, \<lparr>res_id = 3, confidence = Fin 1\<rparr>]
     \<and> probed [[1, 0], [2, 0], [3, 0], [4, 0]] (cluster_assignments s) [1, 0] = [0, 1, 2]
     \<and> map_of (cluster_assignments s) 3 = Some [4, 9])"
  unfolding ivf_nine_twice
  by (simp add: ivf_search_def py_strip_def py_isspace_def kmeans_predict_def probed_def
      gather_def argsort_def euclid_def np_dot_def np_norm_def fdiv_def py_take_def
      result_key_def sqrt_9 sqrt_16)

section \<open>Vectors of another dimension\<close>






section \<open>The keys of the NSW maps\<close>

lemma link_back_keys: "fst ` set (link_back i ns g) = fst ` set g"
  by (induction ns arbitrary: g) (auto simp: AList.dom_map_entry)

lemma delete_keys_set: "fst ` set (AList.delete k al) = fst ` set al - {k}"
  by (induction al) auto

lemma build_graph_keys:
  "build_graph embs k rest g = (None, g') \<Longrightarrow> fst ` set g' = fst ` set g \<union> fst ` set rest"
proof (induction rest arbitrary: g)
  case Nil
  then show ?case by simp
next
  case (Cons p rest)
  obtain i v where p: "p = (i, v)" by (cases p)
  from Cons.prems p obtain ns where
    ns: "find_nearest_neighbors embs i v k = Inr ns"
    and rec: "build_graph embs k rest (AList.update i (set (map res_id ns)) g) = (None, g')"
    by (auto split: sum.splits)
  from Cons.IH [OF rec] show ?case using p by (auto simp: AList.dom_update)
qed

lemma nsw_rebuild_keys:
  assumes "fst (nsw_rebuild items s) = None"
  shows "nsw_keys_agree (snd (nsw_rebuild items s))"
proof -
  let ?embs = "collect_embeddings items"
  obtain err g where bg: "build_graph ?embs (n_neighbors s) ?embs [] = (err, g)"
    by (cases "build_graph ?embs (n_neighbors s) ?embs []")
  with assms have "err = None" by (simp add: nsw_rebuild_def Let_def)
  with bg have "fst ` set g = fst ` set ?embs" using build_graph_keys by fastforce
  then show ?thesis using bg by (simp add: nsw_rebuild_def Let_def nsw_keys_agree_def)
qed

lemma nsw_add_keys:
  assumes "fst (nsw_add item s) = None" "nsw_keys_agree s"
  shows "nsw_keys_agree (snd (nsw_add item s))"
  using assms
  by (auto simp: nsw_add_def nsw_keys_agree_def Let_def link_back_keys AList.dom_update
      split: option.splits sum.splits)

lemma nsw_remove_keys:
  assumes "nsw_keys_agree s"
  shows "nsw_keys_agree (nsw_remove item_id s)"
proof (cases "map_of (nsw_graph s) item_id")
  case None
  then have "item_id \<notin> fst ` set (nsw_graph s)" by (simp add: map_of_eq_None_iff)
  then show ?thesis using assms None
    by (auto simp: nsw_remove_def nsw_keys_agree_def Let_def)
next
  case (Some out)
  have "fst ` set (map (\<lambda>(neighbor_id, nbrs).
                           if neighbor_id \<in> out then (neighbor_id, nbrs - {item_id})
                           else (neighbor_id, nbrs)) (nsw_graph s)) = fst ` set (nsw_graph s)"
    by (force simp: image_iff split: prod.splits if_splits)
  then show ?thesis using assms Some
    by (auto simp: nsw_remove_def nsw_keys_agree_def Let_def delete_keys_set)
qed

lemma nsw_exec_keys:
  "fst (nsw_exec c s) = None \<Longrightarrow> nsw_keys_agree s \<Longrightarrow> nsw_keys_agree (snd (nsw_exec c s))"
  by (cases c) (simp_all add: nsw_rebuild_keys nsw_add_keys nsw_remove_keys)

lemma nsw_run_keys:
  "nsw_clean cs s \<Longrightarrow> nsw_keys_agree s \<Longrightarrow> nsw_keys_agree (nsw_run cs s)"
  by (induction cs arbitrary: s) (auto simp: nsw_exec_keys)

text \<open>
  Claim C9, as amended. After every sequence of \<open>rebuild\<close>, \<open>add\<close> and \<open>remove\<close> calls on
  a new NSW index of which none has raised, the embedding map and the adjacency map have
  the same keys; so when the embedding map is not empty, neither is the adjacency map,
  and \<open>search\<close> finds an entry point.
\<close>

theorem nsw_keys_agree_clean:
  assumes "nsw_clean cs (nsw_init n ef)"
  shows "fst ` set (nsw_embeddings (nsw_run cs (nsw_init n ef)))
           = fst ` set (nsw_graph (nsw_run cs (nsw_init n ef)))
     \<and> (nsw_embeddings (nsw_run cs (nsw_init n ef)) \<noteq> []
          \<longrightarrow> nsw_graph (nsw_run cs (nsw_init n ef)) \<noteq> [])"
proof -
  have "nsw_keys_agree (nsw_init n ef)" by (simp add: nsw_keys_agree_def nsw_init_def)
  then have "nsw_keys_agree (nsw_run cs (nsw_init n ef))" using assms by (rule nsw_run_keys [rotated])
  then show ?thesis unfolding nsw_keys_agree_def by (metis image_is_empty set_empty)
qed

theorem nsw_keys_agree_clean_witness:
  "fst ` set (nsw_embeddings (nsw_run [Add (Chunk 1 (Some [1, 0])), Add (Chunk 2 (Some [0, 1])), Remove 1] (nsw_init 5 100)))
     = fst ` set (nsw_graph (nsw_run [Add (Chunk 1 (Some [1, 0])), Add (Chunk 2 (Some [0, 1])), Remove 1] (nsw_init 5 100)))
   \<and> nsw_graph (nsw_run [Add (Chunk 1 (Some [1, 0])), Add (Chunk 2 (Some [0, 1])), Remove 1] (nsw_init 5 100)) \<noteq> []"
proof -
  let ?cs = "[Add (Chunk 1 (Some [1, 0])), Add (Chunk 2 (Some [0, 1])), Remove 1]"
  have "nsw_clean ?cs (nsw_init 5 100)"
    by (simp add: nsw_init_def nsw_add_def find_nearest_neighbors_def np_norm_def np_dot_def
      fdiv_def py_take_def result_key_def)
  then have keys: "fst ` set (nsw_embeddings (nsw_run ?cs (nsw_init 5 100)))
           = fst ` set (nsw_graph (nsw_run ?cs (nsw_init 5 100)))
     \<and> (nsw_embeddings (nsw_run ?cs (nsw_init 5 100)) \<noteq> []
          \<longrightarrow> nsw_graph (nsw_run ?cs (nsw_init 5 100)) \<noteq> [])"
    by (rule nsw_keys_agree_clean)
  have "nsw_embeddings (nsw_run ?cs (nsw_init 5 100)) \<noteq> []"
    by (simp add: nsw_init_def nsw_add_def nsw_remove_def find_nearest_neighbors_def np_norm_def
      np_dot_def fdiv_def py_take_def result_key_def)
  with keys show ?thesis by blast
qed

text \<open>
  The claim fails after a call that raises. A rebuild over a vector of dimension 2 and
  one of dimension 3 stores both, and raises \<open>ValueError\<close> in the neighbour search of
  the first: the adjacency map stays empty, and the next search finds no entry point
  (\<open>StopIteration\<close>).
\<close>

lemma nsw_mixed_dimensions:
  "nsw_rebuild [Chunk 1 (Some [1, 0]), Chunk 2 (Some [1, 0, 0])] (nsw_init 5 100)
    = (Some ValueError,
       \<lparr>nsw_embeddings = [(1, [1, 0]), (2, [1, 0, 0])], nsw_graph = [], n_neighbors = 5,
        ef_construction = 100\<rparr>)"
  by (simp add: nsw_rebuild_def nsw_init_def collect_embeddings_def find_nearest_neighbors_def
      np_norm_def np_dot_def)

theorem nsw_keys_agree_counterexample:
  "(let s = nsw_run [Rebuild [Chunk 1 (Some [1, 0]), Chunk 2 (Some [1, 0, 0])]] (nsw_init 5 100)
    in fst ` set (nsw_embeddings s) = {1, 2} \<and> fst ` set (nsw_graph s) = {}
       \<and> nsw_search (\<lambda>_. Inr [1, 0]) s ''q'' 5 = Some (Inl StopIteration))"
  by (simp only: nsw_run.simps nsw_exec.simps nsw_mixed_dimensions snd_conv)
    (simp add: nsw_search_def np_norm_def insert_commute)

section \<open>Add, then remove\<close>

















end
